theory Spec2Isabelle
  imports Complex_Main "HOL-Library.Sublist"
begin

section \<open>Strings and numbers of the host language\<close>

text \<open>
  A JavaScript string is modelled as a \<open>string\<close> (a list of 8-bit characters) and a
  JavaScript number as a \<open>real\<close>; the non-finite values of IEEE arithmetic (NaN, the
  infinities) and its rounding are not part of the model.
\<close>

definition lowerTable :: "(char \<times> char) list" where
  "lowerTable = zip ''ABCDEFGHIJKLMNOPQRSTUVWXYZ'' ''abcdefghijklmnopqrstuvwxyz''"

definition toLowerChar :: "char \<Rightarrow> char" where
  "toLowerChar c = (case map_of lowerTable c of Some d \<Rightarrow> d | None \<Rightarrow> c)"

text \<open>\<open>String.prototype.toLowerCase\<close>, on the ASCII letters.\<close>

definition toLowerCase :: "string \<Rightarrow> string" where
  "toLowerCase s = map toLowerChar s"

text \<open>\<open>String.prototype.includes\<close>: the key occurs as a contiguous run of the text.\<close>

fun str_includes :: "string \<Rightarrow> string \<Rightarrow> bool" where
  "str_includes [] k = (k = [])"
| "str_includes (c # cs) k = (prefix k (c # cs) \<or> str_includes cs k)"

text \<open>\<open>Array.prototype.join\<close>.\<close>

fun join :: "string \<Rightarrow> string list \<Rightarrow> string" where
  "join sep [] = []"
| "join sep [x] = x"
| "join sep (x # y # ys) = x @ sep @ join sep (y # ys)"

definition digitChar :: "nat \<Rightarrow> char" where
  "digitChar d = ''0123456789'' ! (d mod 10)"

function showNat :: "nat \<Rightarrow> string" where
  "showNat n = (if n < 10 then [digitChar n] else showNat (n div 10) @ [digitChar (n mod 10)])"
  by pat_completeness auto
termination
  by (relation "measure id") auto

declare showNat.simps [simp del]

text \<open>
  \<open>Number.prototype.toFixed(1)\<close>: the sign, then the integer \<open>n\<close> nearest to ten times
  the magnitude (the larger one on a tie), written with one digit after the point. The
  digits are those of the real number; the exponent form that \<open>toFixed\<close> prints from
  \<open>1e21\<close> on and the rounding of the double are not modelled.
\<close>

definition toFixed1 :: "real \<Rightarrow> string" where
  "toFixed1 x =
     (let n = nat \<lfloor>\<bar>x\<bar> * 10 + 1 / 2\<rfloor>
      in (if x < 0 then ''-'' else '''') @ showNat (n div 10) @ ''.'' @ showNat (n mod 10))"

section \<open>Keyword taxonomy and matcher\<close>

datatype SeverityLevel = Low | Medium | High

record CalibrationResult =
  cr_severity :: SeverityLevel
  cr_originalSeverity :: SeverityLevel
  cr_wasCalibrated :: bool
  cr_note :: "string option"

definition RED_FLAG_KEYWORDS :: "string list" where
  "RED_FLAG_KEYWORDS =
    [''stroke'', ''stemi'', ''myocardial infarction'', ''heart attack'', ''cardiac arrest'',
     ''chest pain'', ''chest tightness'', ''chest pressure'', ''radiating chest pain'',
     ''chest pain with radiation'',
     ''severe respiratory distress'', ''cannot breathe'', ''unable to breathe'', ''cyanosis'',
     ''blue lips'', ''blue fingers'', ''stridor'', ''anaphylaxis'', ''severe allergic reaction'',
     ''shortness of breath'', ''difficulty breathing'',
     ''unconscious'', ''unresponsive'', ''seizure'', ''facial droop'', ''slurred speech'',
     ''acute weakness'', ''sudden weakness'', ''paralysis'', ''altered mental status'',
     ''confusion sudden onset'',
     ''severe trauma'', ''uncontrolled bleeding'', ''hemorrhage'', ''severe bleeding'',
     ''head trauma'', ''spinal injury'', ''amputation'', ''penetrating wound'',
     ''shock'', ''hypotension'', ''low blood pressure'', ''septic shock'',
     ''overdose'', ''poisoning'', ''suicidal'', ''active labor'', ''choking'', ''drowning'']"

definition RED_FLAGS_TIER_1 :: "string list" where
  "RED_FLAGS_TIER_1 =
    [''cardiac arrest'', ''stroke'', ''unconscious'', ''severe bleeding'', ''anaphylaxis'',
     ''seizure'']"

definition RED_FLAGS_TIER_2 :: "string list" where
  "RED_FLAGS_TIER_2 =
    [''chest pain with radiation'', ''severe trauma'', ''respiratory distress'',
     ''altered mental status'', ''high fever with toxic appearance'']"

definition RED_FLAGS_TIER_3 :: "string list" where
  "RED_FLAGS_TIER_3 =
    [''chest pain'', ''shortness of breath'', ''abdominal pain'', ''severe pain'']"

definition LOW_SEVERITY_MARKERS :: "string list" where
  "LOW_SEVERITY_MARKERS =
    [''improving'', ''tolerating fluids'', ''afebrile'', ''stable'', ''self-limited'',
     ''chronic'', ''well-appearing'', ''no distress'']"

definition MINOR_SYMPTOM_KEYWORDS :: "string list" where
  "MINOR_SYMPTOM_KEYWORDS =
    [''sore throat'', ''mild headache'', ''minor headache'', ''tension headache'',
     ''muscle ache'', ''muscle soreness'', ''minor pain'', ''mild pain'', ''discomfort'',
     ''rash'', ''itching'', ''minor cut'', ''scratch'', ''bruise'', ''minor bruise'',
     ''skin irritation'',
     ''runny nose'', ''nasal congestion'', ''sneezing'', ''mild cough'', ''dry cough'',
     ''mild fever'', ''low grade fever'', ''fatigue'', ''tiredness'', ''dizziness mild'',
     ''mild nausea'', ''upset stomach'', ''indigestion'', ''heartburn'', ''constipation'',
     ''diarrhea mild'']"

definition URGENT_BUT_STABLE_KEYWORDS :: "string list" where
  "URGENT_BUT_STABLE_KEYWORDS =
    [''fracture'', ''broken bone'', ''sprain'', ''severe localized pain'', ''kidney stone'',
     ''kidney stones'', ''persistent fever'', ''high fever'', ''cellulitis'',
     ''moderate wheezing'', ''asthma'', ''vomiting'', ''diarrhea'', ''dehydration'',
     ''ear infection'', ''sinus infection'', ''urinary tract infection'', ''uti'']"

text \<open>
  \<open>buildSearchText\<close>: the symptoms joined by a blank, a blank, the summary (the empty
  string when it is absent or empty), all in lower case.
\<close>

definition buildSearchText :: "string list \<Rightarrow> string option \<Rightarrow> string" where
  "buildSearchText symptoms summaryText =
     (let symptomsText = join '' '' symptoms;
          normalizedSummary = (case summaryText of None \<Rightarrow> '''' | Some t \<Rightarrow> t)
      in toLowerCase (symptomsText @ '' '' @ normalizedSummary))"

text \<open>\<open>KEYWORDS.some((keyword) => textToCheck.includes(keyword.toLowerCase()))\<close>.\<close>

definition someKeyword :: "string list \<Rightarrow> string \<Rightarrow> bool" where
  "someKeyword keywords textToCheck =
     list_ex (\<lambda>keyword. str_includes textToCheck (toLowerCase keyword)) keywords"

definition hasRedFlags :: "string list \<Rightarrow> string option \<Rightarrow> bool" where
  "hasRedFlags symptoms summaryText =
     someKeyword RED_FLAG_KEYWORDS (buildSearchText symptoms summaryText)"

definition hasOnlyMinorSymptoms :: "string list \<Rightarrow> string option \<Rightarrow> bool" where
  "hasOnlyMinorSymptoms symptoms summaryText =
     (let textToCheck = buildSearchText symptoms summaryText
      in if hasRedFlags symptoms summaryText then False
         else if someKeyword URGENT_BUT_STABLE_KEYWORDS textToCheck then False
         else someKeyword MINOR_SYMPTOM_KEYWORDS textToCheck)"

definition countRedFlags :: "string list \<Rightarrow> string option \<Rightarrow> nat" where
  "countRedFlags symptoms summaryText =
     (let textToCheck = buildSearchText symptoms summaryText
      in length (filter (\<lambda>keyword. str_includes textToCheck (toLowerCase keyword))
                   RED_FLAG_KEYWORDS))"

definition hasTier1Flags :: "string list \<Rightarrow> string option \<Rightarrow> bool" where
  "hasTier1Flags symptoms summaryText =
     someKeyword RED_FLAGS_TIER_1 (buildSearchText symptoms summaryText)"

definition hasTier2Flags :: "string list \<Rightarrow> string option \<Rightarrow> bool" where
  "hasTier2Flags symptoms summaryText =
     someKeyword RED_FLAGS_TIER_2 (buildSearchText symptoms summaryText)"

definition hasTier3Flags :: "string list \<Rightarrow> string option \<Rightarrow> bool" where
  "hasTier3Flags symptoms summaryText =
     someKeyword RED_FLAGS_TIER_3 (buildSearchText symptoms summaryText)"

definition hasLowSeverityMarkers :: "string list \<Rightarrow> string option \<Rightarrow> bool" where
  "hasLowSeverityMarkers symptoms summaryText =
     someKeyword LOW_SEVERITY_MARKERS (buildSearchText symptoms summaryText)"

section \<open>Age extraction\<close>

text \<open>
  The five regular expressions of \<open>extractAge\<close> are built from a handful of pieces; each
  piece is an atom, and a pattern is the list of its atoms. All five carry the
  case-insensitive flag, so a literal is compared in lower case.
\<close>

datatype cclass = Digit | DashSpace | ColonSpace

datatype atom =
    Lit string          \<comment> \<open>literal text, e.g. \<open>year\<close>\<close>
  | OneC cclass         \<comment> \<open>\<open>[-\s]\<close>\<close>
  | OptC cclass         \<comment> \<open>\<open>[-\s]?\<close>\<close>
  | StarC cclass        \<comment> \<open>\<open>[:\s]*\<close>\<close>
  | Group1Digits        \<comment> \<open>\<open>(\d+)\<close>, the capturing group\<close>
  | WordBoundary        \<comment> \<open>\<open>\b\<close>\<close>

definition isDigit :: "char \<Rightarrow> bool" where
  "isDigit c = (c \<in> set ''0123456789'')"

text \<open>
  \<open>\s\<close>: blank, tab, line feed, vertical tab, form feed, carriage return and the
  no-break space; the white space beyond one byte is out of reach of \<open>char\<close>.
\<close>

definition isSpace :: "char \<Rightarrow> bool" where
  "isSpace c =
     (c \<in> set [CHR '' '', CHR 0x09, CHR 0x0A, CHR 0x0B, CHR 0x0C, CHR 0x0D, CHR 0xA0])"

text \<open>\<open>\w\<close>: an ASCII letter, a digit or the underscore.\<close>

definition isWordChar :: "char \<Rightarrow> bool" where
  "isWordChar c =
     (c \<in> set ''abcdefghijklmnopqrstuvwxyzABCDEFGHIJKLMNOPQRSTUVWXYZ0123456789_'')"

fun inClass :: "cclass \<Rightarrow> char \<Rightarrow> bool" where
  "inClass Digit c = isDigit c"
| "inClass DashSpace c = (c = CHR ''-'' \<or> isSpace c)"
| "inClass ColonSpace c = (c = CHR '':'' \<or> isSpace c)"

definition isWordOpt :: "char option \<Rightarrow> bool" where
  "isWordOpt c = (case c of None \<Rightarrow> False | Some x \<Rightarrow> isWordChar x)"

text \<open>The character before the position reached after consuming \<open>n\<close> characters of \<open>s\<close>.\<close>

definition prevAfter :: "char option \<Rightarrow> string \<Rightarrow> nat \<Rightarrow> char option" where
  "prevAfter prev s n = (if n = 0 then prev else Some (s ! (n - 1)))"

fun firstSome :: "('a \<Rightarrow> 'b option) \<Rightarrow> 'a list \<Rightarrow> 'b option" where
  "firstSome f [] = None"
| "firstSome f (x # xs) = (case f x of Some y \<Rightarrow> Some y | None \<Rightarrow> firstSome f xs)"

text \<open>
  Backtracking match of a pattern at one position: \<open>prev\<close> is the character before the
  position, \<open>s\<close> the text from it on, \<open>cap\<close> the text of group 1 so far. Quantifiers are
  greedy: the longest run is tried first, then shorter ones.
\<close>

fun matchHere :: "atom list \<Rightarrow> char option \<Rightarrow> string \<Rightarrow> string \<Rightarrow> string option" where
  "matchHere [] prev s cap = Some cap"
| "matchHere (Lit w # as) prev s cap =
     (if length w \<le> length s \<and> toLowerCase (take (length w) s) = toLowerCase w
      then matchHere as (prevAfter prev s (length w)) (drop (length w) s) cap
      else None)"
| "matchHere (OneC c # as) prev s cap =
     (case s of [] \<Rightarrow> None
      | x # xs \<Rightarrow> if inClass c x then matchHere as (Some x) xs cap else None)"
| "matchHere (OptC c # as) prev s cap =
     firstSome (\<lambda>n. matchHere as (prevAfter prev s n) (drop n s) cap)
       (rev [0 ..< Suc (min 1 (length (takeWhile (inClass c) s)))])"
| "matchHere (StarC c # as) prev s cap =
     firstSome (\<lambda>n. matchHere as (prevAfter prev s n) (drop n s) cap)
       (rev [0 ..< Suc (length (takeWhile (inClass c) s))])"
| "matchHere (Group1Digits # as) prev s cap =
     firstSome (\<lambda>n. matchHere as (prevAfter prev s n) (drop n s) (take n s))
       (rev [1 ..< Suc (length (takeWhile isDigit s))])"
| "matchHere (WordBoundary # as) prev s cap =
     (if isWordOpt prev \<noteq> isWordOpt (case s of [] \<Rightarrow> None | x # _ \<Rightarrow> Some x)
      then matchHere as prev s cap else None)"

text \<open>\<open>text.match(pattern)\<close>: the leftmost position where the pattern matches.\<close>

fun regexMatch :: "atom list \<Rightarrow> char option \<Rightarrow> string \<Rightarrow> string option" where
  "regexMatch p prev [] = matchHere p prev [] []"
| "regexMatch p prev (x # xs) =
     (case matchHere p prev (x # xs) [] of
        Some g \<Rightarrow> Some g
      | None \<Rightarrow> regexMatch p (Some x) xs)"

definition digitValue :: "char \<Rightarrow> nat" where
  "digitValue c = (case map_of (zip ''0123456789'' [0 ..< 10]) c of Some d \<Rightarrow> d | None \<Rightarrow> 0)"

text \<open>\<open>parseInt(digits, 10)\<close> on a run of decimal digits.\<close>

definition parseInt :: "string \<Rightarrow> nat" where
  "parseInt ds = foldl (\<lambda>a c. 10 * a + digitValue c) 0 ds"

definition agePatterns :: "atom list list" where
  "agePatterns =
    [[Group1Digits, OptC DashSpace, Lit ''year'', OptC DashSpace, Lit ''old''],
     [Group1Digits, OneC DashSpace, Lit ''yo'', WordBoundary],
     [WordBoundary, Lit ''age'', StarC ColonSpace, Group1Digits, WordBoundary],
     [WordBoundary, Lit ''aged'', StarC ColonSpace, Group1Digits, WordBoundary],
     [Group1Digits, OneC DashSpace, Lit ''year'', OneC DashSpace, Lit ''old'']]"

text \<open>
  \<open>extractAge\<close>: the patterns in order; a pattern whose first match gives an age outside
  1..149 is passed over.
\<close>

definition extractAge :: "string \<Rightarrow> nat option" where
  "extractAge text =
     firstSome (\<lambda>pattern.
        case regexMatch pattern None text of
          None \<Rightarrow> None
        | Some g \<Rightarrow> (let age = parseInt g in if 0 < age \<and> age < 150 then Some age else None))
       agePatterns"

definition getAgeRiskAdjustment :: "real option \<Rightarrow> int" where
  "getAgeRiskAdjustment age =
     (case age of
        None \<Rightarrow> 0
      | Some a \<Rightarrow>
          if a < 2 then 2
          else if a \<le> 5 then 1
          else if a \<ge> 75 then 2
          else if a \<ge> 65 then 1
          else 0)"

section \<open>Severity calibrator\<close>

definition checkConfidenceThreshold :: "real \<Rightarrow> real \<Rightarrow> bool" where
  "checkConfidenceThreshold confidence threshold = (confidence \<ge> threshold)"

text \<open>The note of a calibrated result: \<open>calibrated\<close>, then the reason after a colon if any.\<close>

definition calibratedNote :: "string \<Rightarrow> string" where
  "calibratedNote calibrationReason =
     ''calibrated'' @ (if calibrationReason \<noteq> '''' then '': '' @ calibrationReason else '''')"

text \<open>
  The three branches of \<open>calibrateSeverity\<close> after the confidence rule; each returns the
  calibrated severity, the \<open>wasCalibrated\<close> flag and the reason it has set.
\<close>

definition calibrateHigh ::
  "bool \<Rightarrow> bool \<Rightarrow> bool \<Rightarrow> bool \<Rightarrow> bool \<Rightarrow> bool \<Rightarrow> bool \<Rightarrow> int
     \<Rightarrow> SeverityLevel \<times> bool \<times> string" where
  "calibrateHigh tier1Present tier2Present tier3Present lowMarkersPresent hasUrgent
       hasAnyRedFlag minorOnly ageAdjustment =
     (if tier1Present then (High, False, ''Tier 1 life-threatening flags present'')
      else if tier2Present then
        (if lowMarkersPresent \<and> ageAdjustment \<le> 0
         then (Medium, True, ''Tier 2 flags with strong LOW markers'')
         else (High, False, ''Tier 2 serious flags present''))
      else if hasAnyRedFlag then
        (High, False, if tier3Present then ''Tier 3 flags present'' else ''Red flags detected'')
      else if hasUrgent then
        (Medium, True,
         ''calibrated-down: no red flags detected, urgent but stable symptoms present'')
      else if tier3Present \<and> lowMarkersPresent then
        (Low, True, ''Tier 3 flags with LOW severity markers'')
      else if minorOnly then
        (Low, True, ''calibrated-down: only minor symptoms detected'')
      else (Low, True, ''calibrated-down: no red flags detected''))"

definition calibrateMedium ::
  "bool \<Rightarrow> bool \<Rightarrow> bool \<Rightarrow> bool \<Rightarrow> bool \<Rightarrow> SeverityLevel \<times> bool \<times> string" where
  "calibrateMedium tier1Present tier2Present tier3Present lowMarkersPresent minorOnly =
     (if tier1Present \<or> tier2Present then
        (High, True,
         if tier1Present then ''Tier 1 life-threatening flags'' else ''Tier 2 serious flags'')
      else if minorOnly then
        (Low, True, ''calibrated-down: only minor symptoms detected'')
      else if lowMarkersPresent \<and> \<not> tier3Present then
        (Low, True, ''LOW severity markers present'')
      else (Medium, False, ''''))"

definition calibrateLow :: "bool \<Rightarrow> bool \<Rightarrow> int \<Rightarrow> SeverityLevel \<times> bool \<times> string" where
  "calibrateLow tier1Present tier2Present ageAdjustment =
     (if tier1Present then (High, True, ''Tier 1 life-threatening flags override LOW'')
      else if tier2Present then
        (if ageAdjustment > 0 then High else Medium, True, ''Tier 2 serious flags override LOW'')
      else (Low, False, ''''))"

definition calibrateSeverity ::
  "SeverityLevel \<Rightarrow> string list \<Rightarrow> string option \<Rightarrow> real option \<Rightarrow> real option
     \<Rightarrow> CalibrationResult" where
  "calibrateSeverity predictedSeverity symptoms summaryText confidence patientAge =
     (let textToCheck = buildSearchText symptoms summaryText;
          extractedAge = (case patientAge of
                            Some a \<Rightarrow> Some a
                          | None \<Rightarrow> map_option real (extractAge textToCheck));
          ageAdjustment = getAgeRiskAdjustment extractedAge;
          tier1Present = hasTier1Flags symptoms summaryText;
          tier2Present = hasTier2Flags symptoms summaryText;
          tier3Present = hasTier3Flags symptoms summaryText;
          lowMarkersPresent = hasLowSeverityMarkers symptoms summaryText;
          hasUrgent = someKeyword URGENT_BUT_STABLE_KEYWORDS textToCheck;
          redFlagCount = countRedFlags symptoms summaryText;
          hasAnyRedFlag = (redFlagCount > 0);
          abstain = (case confidence of
                       None \<Rightarrow> None
                     | Some c \<Rightarrow> if \<not> checkConfidenceThreshold c 0.90 then Some c else None)
      in case abstain of
         Some c \<Rightarrow>
           \<lparr> cr_severity = Medium,
             cr_originalSeverity = predictedSeverity,
             cr_wasCalibrated = True,
             cr_note = Some (''calibrated-abstain: confidence ''
                             @ toFixed1 (c * 100) @ ''% below 90% threshold'') \<rparr>
       | None \<Rightarrow>
           (let (calibratedSeverity, wasCalibrated0, calibrationReason) =
                  (case predictedSeverity of
                     High \<Rightarrow> calibrateHigh tier1Present tier2Present tier3Present
                               lowMarkersPresent hasUrgent hasAnyRedFlag
                               (hasOnlyMinorSymptoms symptoms summaryText) ageAdjustment
                   | Medium \<Rightarrow> calibrateMedium tier1Present tier2Present tier3Present
                                 lowMarkersPresent (hasOnlyMinorSymptoms symptoms summaryText)
                   | Low \<Rightarrow> calibrateLow tier1Present tier2Present ageAdjustment);
                wasCalibrated = (if calibratedSeverity \<noteq> predictedSeverity then True
                                 else wasCalibrated0)
            in \<lparr> cr_severity = calibratedSeverity,
                 cr_originalSeverity = predictedSeverity,
                 cr_wasCalibrated = wasCalibrated,
                 cr_note = (if wasCalibrated then Some (calibratedNote calibrationReason)
                            else None) \<rparr>))"

section \<open>Hybrid fallback orchestrator\<close>

datatype AnalysisSource = Edge | Cloud

record DifferentialEntry =
  de_condition :: string
  de_probability :: real
  de_recommendation :: string

record HybridAnalysisResult =
  har_symptoms :: "string list"
  har_severity :: SeverityLevel
  har_summary :: string
  har_differential :: "DifferentialEntry list"
  har_recommendations :: "string list"
  har_reasoning :: string
  har_fullResponse :: string
  har_source :: AnalysisSource
  har_confidence :: real
  har_wasCalibrated :: bool
  har_fallbackReason :: "string option"
  har_inferenceTime :: real
  har_tokensGenerated :: "real option"
  har_edgeLatency :: "real option"
  har_cloudLatency :: "real option"

record ParsedEdgeResult =
  pe_severity :: SeverityLevel
  pe_summary :: string
  pe_symptoms :: "string list"
  pe_differential :: "DifferentialEntry list"
  pe_recommendations :: "string list"
  pe_reasoning :: string
  pe_confidence :: "real option"

text \<open>\<open>Partial<ParsedEdgeResult>\<close>: every field may be missing.\<close>

record PartialParsedEdgeResult =
  pp_severity :: "SeverityLevel option"
  pp_summary :: "string option"
  pp_symptoms :: "string list option"
  pp_differential :: "DifferentialEntry list option"
  pp_recommendations :: "string list option"
  pp_reasoning :: "string option"
  pp_confidence :: "real option"

text \<open>What \<open>runEdgeInference\<close> resolves to.\<close>

record EdgeInference =
  ei_response :: string
  ei_tokensGenerated :: real
  ei_inferenceTime :: real
  ei_severity :: "SeverityLevel option"
  ei_calibrated :: "bool option"
  ei_calibrationNote :: "string option"

record CaseAnalysis =
  ca_symptoms :: string
  ca_diagnosis_draft :: string
  ca_critique :: string
  ca_final_output :: string

text \<open>
  The collaborators of the orchestrator and the library routines it calls. A backend
  either resolves to a value (\<open>Inr\<close>) or throws; \<open>Inl\<close> carries the message of the error.
  \<open>parseEdgeResponse\<close> and \<open>JSON_parse\<close> stand for the reading of a response text
  (\<open>JSON.parse\<close> and, for the edge, the regular-expression fallback), \<open>None\<close> being
  \<open>null\<close> for the former and a thrown syntax error for the latter; what is proved
  about the orchestrator holds for every such reader. \<open>JSON_parse\<close> yields a value of
  the declared type \<open>Partial<ParsedEdgeResult>\<close>: a cloud output that parses to
  \<open>null\<close>, on which the field access of \<open>parseCloudResponse\<close> throws, is not
  modelled. \<open>Date_now n\<close> is the \<open>n\<close>-th reading of the clock during one call.
\<close>

record Env =
  runEdgeInference :: "string \<Rightarrow> string + EdgeInference"
  analyzeCaseCloud :: "string \<Rightarrow> string + CaseAnalysis"
  parseEdgeResponse :: "string \<Rightarrow> ParsedEdgeResult option"
  JSON_parse :: "string \<Rightarrow> PartialParsedEdgeResult option"
  JSON_stringify :: "CaseAnalysis \<Rightarrow> string"
  numberToString :: "real \<Rightarrow> string"
  Date_now :: "nat \<Rightarrow> real"

definition calculateConfidenceScore ::
  "SeverityLevel \<Rightarrow> string list \<Rightarrow> string \<Rightarrow> bool \<Rightarrow> real" where
  "calculateConfidenceScore severity symptoms summary wasCalibrated =
     (let redFlagCount = countRedFlags symptoms (Some summary);
          hasMinorOnly = hasOnlyMinorSymptoms symptoms (Some summary);
          baseConfidence0 =
            (case severity of
               High \<Rightarrow> if redFlagCount \<ge> 2 then (0.92 :: real)
                       else if redFlagCount = 1 then 0.85
                       else 0.65
             | Low \<Rightarrow> if hasMinorOnly then 0.88
                      else if redFlagCount = 0 then 0.75
                      else 0.55
             | Medium \<Rightarrow> 0.50);
          baseConfidence = (if wasCalibrated then min 0.95 (baseConfidence0 + 0.05)
                            else baseConfidence0)
      in real_of_int (round (baseConfidence * 100)) / 100)"

definition isEdgeConfident :: "SeverityLevel \<Rightarrow> real \<Rightarrow> string list \<Rightarrow> string \<Rightarrow> bool" where
  "isEdgeConfident severity confidence symptoms summary =
     (if severity = Medium then False
      else if confidence < 0.70 then False
      else if severity = High \<and> \<not> hasRedFlags symptoms (Some summary) then False
      else if severity = Low \<and> hasRedFlags symptoms (Some summary) then False
      else True)"

text \<open>\<open>a || b\<close> on strings: the empty string is falsy.\<close>

definition orElse :: "string \<Rightarrow> string \<Rightarrow> string" where
  "orElse a b = (if a \<noteq> [] then a else b)"

definition parseCloudResponse :: "Env \<Rightarrow> CaseAnalysis \<Rightarrow> real \<Rightarrow> HybridAnalysisResult" where
  "parseCloudResponse env cloudResult fullLatency =
     (let parsedOutput =
            (case JSON_parse env (ca_final_output cloudResult) of
               Some out \<Rightarrow> out
             | None \<Rightarrow> \<lparr> pp_severity = None, pp_summary = Some (ca_final_output cloudResult),
                         pp_symptoms = None, pp_differential = None,
                         pp_recommendations = None, pp_reasoning = None,
                         pp_confidence = None \<rparr>)
      in \<lparr> har_symptoms = (case pp_symptoms parsedOutput of
                              Some xs \<Rightarrow> xs | None \<Rightarrow> [ca_symptoms cloudResult]),
           har_severity = (case pp_severity parsedOutput of Some v \<Rightarrow> v | None \<Rightarrow> Medium),
           har_summary = orElse (case pp_summary parsedOutput of Some t \<Rightarrow> t | None \<Rightarrow> [])
                           (ca_final_output cloudResult),
           har_differential = (case pp_differential parsedOutput of
                                 Some ds \<Rightarrow> ds | None \<Rightarrow> []),
           har_recommendations = (case pp_recommendations parsedOutput of
                                    Some rs \<Rightarrow> rs | None \<Rightarrow> []),
           har_reasoning = orElse (case pp_reasoning parsedOutput of Some t \<Rightarrow> t | None \<Rightarrow> [])
                             (orElse (ca_critique cloudResult) []),
           har_fullResponse = JSON_stringify env cloudResult,
           har_source = Cloud,
           har_confidence = 0.75,
           har_wasCalibrated = False,
           har_fallbackReason = None,
           har_inferenceTime = fullLatency,
           har_tokensGenerated = None,
           har_edgeLatency = None,
           har_cloudLatency = Some fullLatency \<rparr>)"

text \<open>\<open>edgeResult.calibrated || false\<close>.\<close>

definition calibratedOrFalse :: "EdgeInference \<Rightarrow> bool" where
  "calibratedOrFalse edgeResult = (case ei_calibrated edgeResult of Some b \<Rightarrow> b | None \<Rightarrow> False)"

text \<open>
  The result built from an edge candidate; \<open>analyzeHybrid\<close> builds it in two places,
  with and without a fallback reason.
\<close>

definition edgeSourcedResult ::
  "EdgeInference \<Rightarrow> ParsedEdgeResult \<Rightarrow> real \<Rightarrow> string option \<Rightarrow> real
     \<Rightarrow> HybridAnalysisResult" where
  "edgeSourcedResult edgeResult edgeParsed confidence fallbackReason inferenceTime =
     \<lparr> har_symptoms = pe_symptoms edgeParsed,
       har_severity = pe_severity edgeParsed,
       har_summary = pe_summary edgeParsed,
       har_differential = pe_differential edgeParsed,
       har_recommendations = pe_recommendations edgeParsed,
       har_reasoning = pe_reasoning edgeParsed,
       har_fullResponse = ei_response edgeResult,
       har_source = Edge,
       har_confidence = confidence,
       har_wasCalibrated = calibratedOrFalse edgeResult,
       har_fallbackReason = fallbackReason,
       har_inferenceTime = inferenceTime,
       har_tokensGenerated = Some (ei_tokensGenerated edgeResult),
       har_edgeLatency = Some (ei_inferenceTime edgeResult),
       har_cloudLatency = None \<rparr>"

definition severityName :: "SeverityLevel \<Rightarrow> string" where
  "severityName v = (case v of Low \<Rightarrow> ''low'' | Medium \<Rightarrow> ''medium'' | High \<Rightarrow> ''high'')"

text \<open>
  The second attempt of \<open>analyzeHybrid\<close>, entered with what the first attempt left:
  the edge result and its parse if there are any, and the edge error if one was thrown.
  The first component of the value is the list of backends called, in order; the second
  is the thrown error message (\<open>Inl\<close>) or the result (\<open>Inr\<close>).
\<close>

definition cloudFallback ::
  "Env \<Rightarrow> string \<Rightarrow> real \<Rightarrow> EdgeInference option \<Rightarrow> ParsedEdgeResult option \<Rightarrow> string option
     \<Rightarrow> AnalysisSource list \<times> (string + HybridAnalysisResult)" where
  "cloudFallback env symptoms startTime edgeResult edgeParsed edgeError =
     (case analyzeCaseCloud env symptoms of
        Inr cloudResult \<Rightarrow>
          (let fullLatency = Date_now env 2 - startTime;
               result = parseCloudResponse env cloudResult fullLatency;
               fallbackReason =
                 (case edgeError of
                    Some message \<Rightarrow> ''Edge failed: '' @ message
                  | None \<Rightarrow>
                     (case edgeParsed of
                        Some parsed \<Rightarrow>
                          (let confidence = calculateConfidenceScore (pe_severity parsed)
                                 (pe_symptoms parsed) (pe_summary parsed)
                                 (case edgeResult of Some r \<Rightarrow> calibratedOrFalse r
                                  | None \<Rightarrow> False)
                           in ''Edge uncertain: severity='' @ severityName (pe_severity parsed)
                              @ '', confidence='' @ numberToString env confidence)
                      | None \<Rightarrow> ''Edge returned unparsable response''))
           in ([Edge, Cloud], Inr (result\<lparr> har_fallbackReason := Some fallbackReason \<rparr>)))
      | Inl cloudMessage \<Rightarrow>
          (case (edgeParsed, edgeResult) of
             (Some parsed, Some r) \<Rightarrow>
               (let inferenceTime = Date_now env 2 - startTime;
                    confidence = calculateConfidenceScore (pe_severity parsed)
                                   (pe_symptoms parsed) (pe_summary parsed) (calibratedOrFalse r)
                in ([Edge, Cloud],
                    Inr (edgeSourcedResult r parsed confidence
                           (Some (''Cloud failed ('' @ cloudMessage
                                  @ ''), using uncertain edge result''))
                           inferenceTime)))
           | _ \<Rightarrow>
               ([Edge, Cloud],
                Inl (''Hybrid analysis failed. Edge: ''
                     @ orElse (case edgeError of Some message \<Rightarrow> message | None \<Rightarrow> [])
                         ''unknown''
                     @ '', Cloud: '' @ cloudMessage))))"

definition analyzeHybrid ::
  "Env \<Rightarrow> string \<Rightarrow> AnalysisSource list \<times> (string + HybridAnalysisResult)" where
  "analyzeHybrid env symptoms =
     (let startTime = Date_now env 0
      in case runEdgeInference env symptoms of
           Inl message \<Rightarrow> cloudFallback env symptoms startTime None None (Some message)
         | Inr edgeResult \<Rightarrow>
             (case parseEdgeResponse env (ei_response edgeResult) of
                None \<Rightarrow>
                  cloudFallback env symptoms startTime (Some edgeResult) None
                    (Some ''Failed to parse edge response'')
              | Some edgeParsed \<Rightarrow>
                  (let confidence = calculateConfidenceScore (pe_severity edgeParsed)
                         (pe_symptoms edgeParsed) (pe_summary edgeParsed)
                         (calibratedOrFalse edgeResult);
                       isConfident = isEdgeConfident (pe_severity edgeParsed) confidence
                         (pe_symptoms edgeParsed) (pe_summary edgeParsed)
                   in if isConfident then
                        (let inferenceTime = Date_now env 1 - startTime
                         in ([Edge],
                             Inr (edgeSourcedResult edgeResult edgeParsed confidence None
                                    inferenceTime)))
                      else cloudFallback env symptoms startTime (Some edgeResult)
                             (Some edgeParsed) None)))"

section \<open>Scenarios\<close>

text \<open>
  An environment whose backends and parser return fixed values, for running the
  orchestrator on concrete scenarios.
\<close>

definition scenarioEnv ::
  "(string + EdgeInference) \<Rightarrow> ParsedEdgeResult option \<Rightarrow> (string + CaseAnalysis) \<Rightarrow> Env" where
  "scenarioEnv edgeOutcome parsed cloudOutcome =
     \<lparr> runEdgeInference = (\<lambda>_. edgeOutcome),
       analyzeCaseCloud = (\<lambda>_. cloudOutcome),
       parseEdgeResponse = (\<lambda>_. parsed),
       JSON_parse = (\<lambda>_. None),
       JSON_stringify = ca_final_output,
       numberToString = (\<lambda>_. ''0''),
       Date_now = real \<rparr>"

definition scenarioEdge :: EdgeInference where
  "scenarioEdge =
     \<lparr> ei_response = ''response'', ei_tokensGenerated = 1, ei_inferenceTime = 40,
       ei_severity = None, ei_calibrated = None, ei_calibrationNote = None \<rparr>"

definition scenarioParsed :: "SeverityLevel \<Rightarrow> string list \<Rightarrow> ParsedEdgeResult" where
  "scenarioParsed v symptoms =
     \<lparr> pe_severity = v, pe_summary = [], pe_symptoms = symptoms, pe_differential = [],
       pe_recommendations = [], pe_reasoning = [], pe_confidence = None \<rparr>"

definition scenarioCloud :: CaseAnalysis where
  "scenarioCloud =
     \<lparr> ca_symptoms = ''fever'', ca_diagnosis_draft = ''draft'', ca_critique = ''critique'',
       ca_final_output = ''final'' \<rparr>"

section \<open>Temperature-scaled confidence\<close>

datatype Reliability = ReliabilityHigh | ReliabilityMedium | ReliabilityLow

record ConfidenceScore =
  cs_raw :: real
  cs_calibrated :: real
  cs_uncertainty :: real
  cs_reliability :: Reliability
  cs_description :: string

definition DEFAULT_TEMPERATURE :: real where
  "DEFAULT_TEMPERATURE = 1.3"

definition SEVERITY_TEMPERATURE :: "(SeverityLevel \<times> real) list" where
  "SEVERITY_TEMPERATURE = [(High, 1.1), (Medium, 1.3), (Low, 1.5)]"

definition sigmoid :: "real \<Rightarrow> real" where
  "sigmoid x = 1 / (1 + exp (- x))"

definition getConfidenceDescription :: "real \<Rightarrow> Reliability \<Rightarrow> SeverityLevel \<Rightarrow> string" where
  "getConfidenceDescription confidence reliability severity =
     (let confidenceLevel = (if confidence \<ge> 0.85 then ''High''
                             else if confidence \<ge> 0.65 then ''Moderate'' else ''Low'');
          reliabilityNote =
            (if reliability = ReliabilityHigh
             then ''Model is well-calibrated for this case type.''
             else if reliability = ReliabilityMedium
             then ''Some uncertainty exists; clinician review recommended.''
             else ''Significant uncertainty; treat as preliminary assessment.'')
      in confidenceLevel @ '' confidence ('' @ toFixed1 (confidence * 100) @ ''%). ''
         @ reliabilityNote)"

text \<open>
  The first uncertainty of \<open>calculateConfidence\<close>: the base value 0.1, or with two or
  more ensemble scores the square root of their variance about the mean, the sums being
  divided by the number of scores.
\<close>

definition ensembleUncertainty :: "real list option \<Rightarrow> real" where
  "ensembleUncertainty ensembleScores =
     (case ensembleScores of
        None \<Rightarrow> 0.1
      | Some scores \<Rightarrow>
          if length scores > 1 then
            (let mean = foldl (\<lambda>a b. a + b) 0 scores / real (length scores);
                 variance = foldl (\<lambda>sum s. sum + (s - mean) ^ 2) 0 scores
                              / real (length scores)
             in sqrt variance)
          else 0.1)"

text \<open>
  \<open>calculateConfidence\<close>. The temperature is the table entry of the severity (the
  default when the entry is missing or zero).
\<close>

definition calculateConfidence ::
  "real \<Rightarrow> SeverityLevel \<Rightarrow> real list option \<Rightarrow> ConfidenceScore" where
  "calculateConfidence rawLogit severity ensembleScores =
     (let temp = (case map_of SEVERITY_TEMPERATURE severity of
                    Some t \<Rightarrow> if t \<noteq> 0 then t else DEFAULT_TEMPERATURE
                  | None \<Rightarrow> DEFAULT_TEMPERATURE);
          rawProb = sigmoid rawLogit;
          calibratedProb = sigmoid (rawLogit / temp);
          uncertainty0 = ensembleUncertainty ensembleScores;
          uncertainty = (if calibratedProb < 0.6 \<or> calibratedProb > 0.95
                         then min (uncertainty0 * 1.5) 0.25 else uncertainty0);
          reliability = (if uncertainty < 0.1 \<and> calibratedProb > 0.7 then ReliabilityHigh
                         else if uncertainty < 0.2 then ReliabilityMedium
                         else ReliabilityLow);
          description = getConfidenceDescription calibratedProb reliability severity
      in \<lparr> cs_raw = rawProb,
           cs_calibrated = calibratedProb,
           cs_uncertainty = uncertainty,
           cs_reliability = reliability,
           cs_description = description \<rparr>)"

section \<open>Retrieval index (BM25)\<close>

datatype MetaValue = MetaString string | MetaNumber real | MetaBoolean bool

























subsection \<open>The ranking as the specification words it\<close>








section \<open>Properties of the severity calibrator\<close>

subsection \<open>Scenarios of the test suite\<close>

lemma extractAge_examples:
  "extractAge ''55-year-old male with chest pain radiating to left arm'' = Some 55"
  "extractAge ''patient aged 7'' = Some 7"
  "extractAge ''age: 80'' = Some 80"
  "extractAge ''a 3 yo child'' = Some 3"
  "extractAge ''200 year old'' = None"
  "extractAge ''cold-like symptoms for 2 days'' = None"
  by code_simp+

lemma scenario_common_cold:
  "calibrateSeverity High [''sore throat'', ''runny nose'', ''mild cough'']
     (Some ''Patient reports cold-like symptoms for 2 days'') None None
   = \<lparr> cr_severity = Low, cr_originalSeverity = High, cr_wasCalibrated = True,
       cr_note = Some ''calibrated: calibrated-down: only minor symptoms detected'' \<rparr>"
  by code_simp

lemma scenario_fracture:
  "calibrateSeverity High [''fracture'', ''severe localized pain'']
     (Some ''Fall resulting in suspected arm fracture'') None None
   = \<lparr> cr_severity = Medium, cr_originalSeverity = High, cr_wasCalibrated = True,
       cr_note = Some (''calibrated: calibrated-down: no red flags detected, ''
                       @ ''urgent but stable symptoms present'') \<rparr>"
  by code_simp

lemma scenario_cardiac:
  "calibrateSeverity High [''chest pain'', ''shortness of breath'', ''sweating'']
     (Some ''55-year-old male with chest pain radiating to left arm'') None None
   = \<lparr> cr_severity = High, cr_originalSeverity = High, cr_wasCalibrated = False,
       cr_note = None \<rparr>"
  by code_simp

subsection \<open>The calibration rules\<close>

lemma calibrateHigh_changed:
  "calibrateHigh t1 t2 t3 lm urg rf mo adj = (sev, wc, reason) \<Longrightarrow> sev \<noteq> High
     \<Longrightarrow> wc \<and> reason \<noteq> []"
  by (auto simp: calibrateHigh_def split: if_splits)

lemma calibrateMedium_changed:
  "calibrateMedium t1 t2 t3 lm mo = (sev, wc, reason) \<Longrightarrow> sev \<noteq> Medium
     \<Longrightarrow> wc \<and> reason \<noteq> []"
  by (auto simp: calibrateMedium_def split: if_splits)

lemma calibrateLow_changed:
  "calibrateLow t1 t2 adj = (sev, wc, reason) \<Longrightarrow> sev \<noteq> Low \<Longrightarrow> wc \<and> reason \<noteq> []"
  by (auto simp: calibrateLow_def split: if_splits)

lemma calibratedNote_reason:
  "reason \<noteq> [] \<Longrightarrow> \<exists>r. r \<noteq> [] \<and> calibratedNote reason = ''calibrated'' @ r"
  by (simp add: calibratedNote_def)

text \<open>
  Claim C1. Whatever the predicted severity, symptoms, summary, confidence and age: if the
  severity returned by \<open>calibrateSeverity\<close> differs from the predicted one, then
  \<open>wasCalibrated\<close> is true and the note is present and non-empty; it reads \<open>calibrated\<close>
  followed by a non-empty reason set by the branch taken.
\<close>

theorem calibrateSeverity_change_is_noted:
  assumes "cr_severity (calibrateSeverity predictedSeverity symptoms summaryText confidence patientAge)
             \<noteq> predictedSeverity"
  shows "cr_wasCalibrated (calibrateSeverity predictedSeverity symptoms summaryText confidence patientAge)
         \<and> (\<exists>reason. reason \<noteq> [] \<and>
               cr_note (calibrateSeverity predictedSeverity symptoms summaryText confidence patientAge)
                 = Some (''calibrated'' @ reason))"
proof (cases "\<exists>c. confidence = Some c \<and> \<not> checkConfidenceThreshold c 0.90")
  case True
  then obtain c where c: "confidence = Some c" "\<not> checkConfidenceThreshold c 0.90" by blast
  then show ?thesis
    by (simp add: calibrateSeverity_def Let_def)
next
  case False
  then have ab: "(case confidence of None \<Rightarrow> None
                  | Some c \<Rightarrow> if \<not> checkConfidenceThreshold c 0.90 then Some c else None) = None"
    by (cases confidence) auto
  show ?thesis
  proof (cases predictedSeverity)
    case Low
    show ?thesis using assms calibrateLow_changed calibratedNote_reason
      unfolding calibrateSeverity_def Let_def ab Low
      by (auto split: prod.splits)
  next
    case Medium
    show ?thesis using assms calibrateMedium_changed calibratedNote_reason
      unfolding calibrateSeverity_def Let_def ab Medium
      by (auto split: prod.splits)
  next
    case High
    show ?thesis using assms calibrateHigh_changed calibratedNote_reason
      unfolding calibrateSeverity_def Let_def ab High
      by (auto split: prod.splits)
  qed
qed

theorem calibrateSeverity_change_is_noted_witness:
  "cr_severity (calibrateSeverity High [] None None None) \<noteq> High
   \<and> cr_wasCalibrated (calibrateSeverity High [] None None None)
   \<and> (\<exists>reason. reason \<noteq> [] \<and>
         cr_note (calibrateSeverity High [] None None None) = Some (''calibrated'' @ reason))"
proof -
  have h: "cr_severity (calibrateSeverity High [] None None None) \<noteq> High"
    by code_simp
  from calibrateSeverity_change_is_noted [OF h] h show ?thesis by blast
qed

text \<open>
  Claim C2. When a confidence is supplied and it is below 0.90, the severity returned by
  \<open>calibrateSeverity\<close> is medium, whatever the predicted severity, the symptoms, the
  summary (hence whatever keyword of any tier they hold) and the age.
\<close>

theorem calibrateSeverity_abstain:
  "c < 0.90 \<Longrightarrow>
     cr_severity (calibrateSeverity predictedSeverity symptoms summaryText (Some c) patientAge)
       = Medium"
  by (simp add: calibrateSeverity_def Let_def checkConfidenceThreshold_def)

theorem calibrateSeverity_abstain_witness:
  "(0.5 :: real) < 0.90
   \<and> hasTier1Flags [''stroke''] None
   \<and> cr_severity (calibrateSeverity High [''stroke''] None (Some 0.5) None) = Medium"
proof -
  have h: "(0.5 :: real) < 0.90" by simp
  have t: "hasTier1Flags [''stroke''] None" by code_simp
  from calibrateSeverity_abstain [OF h] h t show ?thesis by blast
qed

text \<open>
  Claim C3. When the symptoms and the summary hold no Tier-1 and no Tier-2 keyword,
  \<open>calibrateSeverity\<close> called with predicted severity low and no confidence returns
  severity low (and records no calibration), whatever Tier-3, minor or urgent keywords
  are present and whatever the age.
\<close>

theorem calibrateSeverity_low_sticky:
  assumes "\<not> hasTier1Flags symptoms summaryText" and "\<not> hasTier2Flags symptoms summaryText"
  shows "cr_severity (calibrateSeverity Low symptoms summaryText None patientAge) = Low
         \<and> \<not> cr_wasCalibrated (calibrateSeverity Low symptoms summaryText None patientAge)"
  using assms by (simp add: calibrateSeverity_def Let_def calibrateLow_def)

theorem calibrateSeverity_low_sticky_witness:
  "\<not> hasTier1Flags [''chest pain'', ''mild cough'', ''fracture''] (Some ''80-year-old'')
   \<and> \<not> hasTier2Flags [''chest pain'', ''mild cough'', ''fracture''] (Some ''80-year-old'')
   \<and> hasTier3Flags [''chest pain'', ''mild cough'', ''fracture''] (Some ''80-year-old'')
   \<and> cr_severity (calibrateSeverity Low [''chest pain'', ''mild cough'', ''fracture'']
                     (Some ''80-year-old'') None None) = Low"
proof -
  have h1: "\<not> hasTier1Flags [''chest pain'', ''mild cough'', ''fracture''] (Some ''80-year-old'')"
    by code_simp
  have h2: "\<not> hasTier2Flags [''chest pain'', ''mild cough'', ''fracture''] (Some ''80-year-old'')"
    by code_simp
  have h3: "hasTier3Flags [''chest pain'', ''mild cough'', ''fracture''] (Some ''80-year-old'')"
    by code_simp
  from calibrateSeverity_low_sticky [OF h1 h2] h1 h2 h3 show ?thesis by blast
qed

text \<open>
  Claim C9. Calibrating again is not idempotent: for the single symptom
  \<open>respiratory distress\<close> (a Tier-2 keyword) a predicted low becomes medium, and
  calibrating that medium with the same symptoms gives high. Hence there are a severity
  and a symptom list for which the second pass changes the result of the first.
\<close>

theorem calibrateSeverity_not_idempotent:
  "cr_severity (calibrateSeverity Low [''respiratory distress''] None None None) = Medium
   \<and> cr_severity (calibrateSeverity Medium [''respiratory distress''] None None None) = High
   \<and> (\<exists>s symptoms.
         cr_severity (calibrateSeverity
                        (cr_severity (calibrateSeverity s symptoms None None None))
                        symptoms None None None)
           \<noteq> cr_severity (calibrateSeverity s symptoms None None None))"
proof -
  have p1: "cr_severity (calibrateSeverity Low [''respiratory distress''] None None None)
              = Medium"
    by code_simp
  have p2: "cr_severity (calibrateSeverity Medium [''respiratory distress''] None None None)
              = High"
    by code_simp
  have "cr_severity (calibrateSeverity
                       (cr_severity (calibrateSeverity Low [''respiratory distress'']
                                       None None None))
                       [''respiratory distress''] None None None)
          \<noteq> cr_severity (calibrateSeverity Low [''respiratory distress''] None None None)"
    by (simp add: p1 p2)
  then show ?thesis using p1 p2 by blast
qed

section \<open>Properties of the decision confidence and the orchestrator\<close>

lemma countRedFlags_pos: "0 < countRedFlags symptoms summaryText \<longleftrightarrow> hasRedFlags symptoms summaryText"
  by (simp add: countRedFlags_def hasRedFlags_def someKeyword_def Let_def list_ex_iff
        filter_empty_conv)

lemma minorOnly_no_red_flag:
  "0 < countRedFlags symptoms summaryText \<Longrightarrow> \<not> hasOnlyMinorSymptoms symptoms summaryText"
  by (simp add: countRedFlags_pos hasOnlyMinorSymptoms_def Let_def)

lemma str_includes_prefix: "prefix k t \<Longrightarrow> str_includes t k"
  by (cases t) auto

lemma str_includes_mid: "str_includes (a @ k @ b) k"
  by (induction a) (auto simp: str_includes_prefix)

lemma str_includes_empty: "str_includes t []"
  by (cases t) auto

text \<open>
  Claim C5. \<open>calculateConfidenceScore\<close> returns exactly: for high severity 0.92 with two
  or more matched red flags, 0.85 with exactly one, 0.65 with none; for low severity 0.88
  when only minor symptoms are present, otherwise 0.75 when no red flag matches and 0.55
  when some red flag matches; 0.50 for medium; and when \<open>wasCalibrated\<close> is true, 0.05
  more, capped at 0.95 (so 0.95, 0.90, 0.70, 0.93, 0.80, 0.60 and 0.55).
\<close>

theorem calculateConfidenceScore_table:
  "(2 \<le> countRedFlags symptoms (Some summary) \<longrightarrow>
      calculateConfidenceScore High symptoms summary False = 0.92
      \<and> calculateConfidenceScore High symptoms summary True = 0.95)
   \<and> (countRedFlags symptoms (Some summary) = 1 \<longrightarrow>
      calculateConfidenceScore High symptoms summary False = 0.85
      \<and> calculateConfidenceScore High symptoms summary True = 0.90)
   \<and> (countRedFlags symptoms (Some summary) = 0 \<longrightarrow>
      calculateConfidenceScore High symptoms summary False = 0.65
      \<and> calculateConfidenceScore High symptoms summary True = 0.70)
   \<and> (hasOnlyMinorSymptoms symptoms (Some summary) \<longrightarrow>
      calculateConfidenceScore Low symptoms summary False = 0.88
      \<and> calculateConfidenceScore Low symptoms summary True = 0.93)
   \<and> (\<not> hasOnlyMinorSymptoms symptoms (Some summary)
        \<and> countRedFlags symptoms (Some summary) = 0 \<longrightarrow>
      calculateConfidenceScore Low symptoms summary False = 0.75
      \<and> calculateConfidenceScore Low symptoms summary True = 0.80)
   \<and> (0 < countRedFlags symptoms (Some summary) \<longrightarrow>
      calculateConfidenceScore Low symptoms summary False = 0.55
      \<and> calculateConfidenceScore Low symptoms summary True = 0.60)
   \<and> calculateConfidenceScore Medium symptoms summary False = 0.50
   \<and> calculateConfidenceScore Medium symptoms summary True = 0.55"
  using minorOnly_no_red_flag [of symptoms "Some summary"]
  by (auto simp: calculateConfidenceScore_def Let_def)

theorem calculateConfidenceScore_table_witness:
  "(2 \<le> countRedFlags [''chest pain'', ''stroke''] (Some [])
      \<and> calculateConfidenceScore High [''chest pain'', ''stroke''] [] False = 0.92
      \<and> calculateConfidenceScore High [''chest pain'', ''stroke''] [] True = 0.95)
   \<and> (countRedFlags [''seizure''] (Some []) = 1
      \<and> calculateConfidenceScore High [''seizure''] [] False = 0.85
      \<and> calculateConfidenceScore High [''seizure''] [] True = 0.90)
   \<and> (countRedFlags [''fracture''] (Some []) = 0
      \<and> calculateConfidenceScore High [''fracture''] [] False = 0.65
      \<and> calculateConfidenceScore High [''fracture''] [] True = 0.70)
   \<and> (hasOnlyMinorSymptoms [''sore throat''] (Some [])
      \<and> calculateConfidenceScore Low [''sore throat''] [] False = 0.88
      \<and> calculateConfidenceScore Low [''sore throat''] [] True = 0.93)
   \<and> (\<not> hasOnlyMinorSymptoms [''fracture''] (Some [])
      \<and> calculateConfidenceScore Low [''fracture''] [] False = 0.75
      \<and> calculateConfidenceScore Low [''fracture''] [] True = 0.80)
   \<and> (0 < countRedFlags [''seizure''] (Some [])
      \<and> calculateConfidenceScore Low [''seizure''] [] False = 0.55
      \<and> calculateConfidenceScore Low [''seizure''] [] True = 0.60)"
proof -
  have h2: "2 \<le> countRedFlags [''chest pain'', ''stroke''] (Some [])" by code_simp
  have h1: "countRedFlags [''seizure''] (Some []) = 1" by code_simp
  have h0: "countRedFlags [''fracture''] (Some []) = 0" by code_simp
  have hm: "hasOnlyMinorSymptoms [''sore throat''] (Some [])" by code_simp
  have hn: "\<not> hasOnlyMinorSymptoms [''fracture''] (Some [])" by code_simp
  have hp: "0 < countRedFlags [''seizure''] (Some [])" using h1 by simp
  note t = calculateConfidenceScore_table
  have c2: "calculateConfidenceScore High [''chest pain'', ''stroke''] [] False = 0.92
      \<and> calculateConfidenceScore High [''chest pain'', ''stroke''] [] True = 0.95"
    using t [of "[''chest pain'', ''stroke'']" "[]"] h2 by (elim conjE) (rule mp)
  have c1: "calculateConfidenceScore High [''seizure''] [] False = 0.85
      \<and> calculateConfidenceScore High [''seizure''] [] True = 0.90"
    using t [of "[''seizure'']" "[]"] h1 by (elim conjE) (erule mp)
  have c0: "calculateConfidenceScore High [''fracture''] [] False = 0.65
      \<and> calculateConfidenceScore High [''fracture''] [] True = 0.70"
    using t [of "[''fracture'']" "[]"] h0 by (elim conjE) (erule mp)
  have cm: "calculateConfidenceScore Low [''sore throat''] [] False = 0.88
      \<and> calculateConfidenceScore Low [''sore throat''] [] True = 0.93"
    using t [of "[''sore throat'']" "[]"] hm by (elim conjE) (erule mp)
  have cn: "calculateConfidenceScore Low [''fracture''] [] False = 0.75
      \<and> calculateConfidenceScore Low [''fracture''] [] True = 0.80"
    using t [of "[''fracture'']" "[]"] hn h0 by (elim conjE) (erule mp, rule conjI)
  have cp: "calculateConfidenceScore Low [''seizure''] [] False = 0.55
      \<and> calculateConfidenceScore Low [''seizure''] [] True = 0.60"
    using t [of "[''seizure'']" "[]"] hp by (elim conjE) (erule mp)
  from h2 h1 h0 hm hn hp c2 c1 c0 cm cn cp show ?thesis
    by simp
qed
lemma gate_two_flags:
  "isEdgeConfident High (calculateConfidenceScore High [''chest pain'', ''stroke''] [] False)
     [''chest pain'', ''stroke''] []"
  by code_simp

text \<open>
  Claim C6. The edge-confidence gate \<open>isEdgeConfident\<close> rejects exactly when the severity
  is medium, or the confidence is below 0.70, or the severity is high with no matched red
  flag, or the severity is low with a matched red flag. When the edge response parses and
  the gate passes on its decision confidence, \<open>analyzeHybrid\<close> returns the edge candidate
  with source edge and no fallback reason, and the only backend called is the edge.
\<close>

theorem isEdgeConfident_gate:
  "(\<not> isEdgeConfident severity confidence symptoms summary \<longleftrightarrow>
       severity = Medium
     \<or> confidence < 0.70
     \<or> (severity = High \<and> \<not> hasRedFlags symptoms (Some summary))
     \<or> (severity = Low \<and> hasRedFlags symptoms (Some summary)))
   \<and> (runEdgeInference env text = Inr edgeResult
        \<and> parseEdgeResponse env (ei_response edgeResult) = Some edgeParsed
        \<and> isEdgeConfident (pe_severity edgeParsed)
              (calculateConfidenceScore (pe_severity edgeParsed) (pe_symptoms edgeParsed)
                 (pe_summary edgeParsed) (calibratedOrFalse edgeResult))
              (pe_symptoms edgeParsed) (pe_summary edgeParsed)
      \<longrightarrow> (\<exists>result. analyzeHybrid env text = ([Edge], Inr result)
             \<and> har_source result = Edge
             \<and> har_fallbackReason result = None
             \<and> har_severity result = pe_severity edgeParsed))"
  by (auto simp: isEdgeConfident_def analyzeHybrid_def Let_def edgeSourcedResult_def)

theorem isEdgeConfident_gate_witness:
  "isEdgeConfident (pe_severity (scenarioParsed High [''chest pain'', ''stroke'']))
     (calculateConfidenceScore (pe_severity (scenarioParsed High [''chest pain'', ''stroke'']))
        (pe_symptoms (scenarioParsed High [''chest pain'', ''stroke'']))
        (pe_summary (scenarioParsed High [''chest pain'', ''stroke'']))
        (calibratedOrFalse scenarioEdge))
     (pe_symptoms (scenarioParsed High [''chest pain'', ''stroke'']))
     (pe_summary (scenarioParsed High [''chest pain'', ''stroke'']))
   \<and> (\<exists>result.
         analyzeHybrid
           (scenarioEnv (Inr scenarioEdge) (Some (scenarioParsed High [''chest pain'', ''stroke'']))
              (Inl ''offline''))
           ''chest pain and stroke'' = ([Edge], Inr result)
         \<and> har_source result = Edge \<and> har_fallbackReason result = None
         \<and> har_severity result = High)"
proof -
  let ?p = "scenarioParsed High [''chest pain'', ''stroke'']"
  let ?env = "scenarioEnv (Inr scenarioEdge) (Some ?p) (Inl ''offline'')"
  have g: "isEdgeConfident (pe_severity ?p)
             (calculateConfidenceScore (pe_severity ?p) (pe_symptoms ?p) (pe_summary ?p)
                (calibratedOrFalse scenarioEdge))
             (pe_symptoms ?p) (pe_summary ?p)"
    using gate_two_flags by (simp add: scenarioParsed_def scenarioEdge_def calibratedOrFalse_def)
  have e: "runEdgeInference ?env ''chest pain and stroke'' = Inr scenarioEdge"
    by (simp add: scenarioEnv_def)
  have q: "parseEdgeResponse ?env (ei_response scenarioEdge) = Some ?p"
    by (simp add: scenarioEnv_def)
  have s: "pe_severity ?p = High" by (simp add: scenarioParsed_def)
  from isEdgeConfident_gate [of High 0 "[]" "[]" ?env "''chest pain and stroke''" scenarioEdge ?p]
       e q g
  have "\<exists>result. analyzeHybrid ?env ''chest pain and stroke'' = ([Edge], Inr result)
             \<and> har_source result = Edge
             \<and> har_fallbackReason result = None
             \<and> har_severity result = pe_severity ?p"
    by blast
  with g s show ?thesis by simp
qed

text \<open>
  Claim C7. When the cloud call fails in \<open>analyzeHybrid\<close>: if the edge response was
  parsed but did not pass the gate, the edge candidate is returned with source edge and
  fallback reason \<open>Cloud failed (<message>), using uncertain edge result\<close>; if there is no
  parsed edge candidate, because the edge call threw or because its response did not
  parse, an error is thrown whose message contains the edge failure message and the cloud
  failure message.
\<close>

theorem analyzeHybrid_cloud_failure:
  "(runEdgeInference env text = Inr edgeResult
      \<and> parseEdgeResponse env (ei_response edgeResult) = Some edgeParsed
      \<and> \<not> isEdgeConfident (pe_severity edgeParsed)
              (calculateConfidenceScore (pe_severity edgeParsed) (pe_symptoms edgeParsed)
                 (pe_summary edgeParsed) (calibratedOrFalse edgeResult))
              (pe_symptoms edgeParsed) (pe_summary edgeParsed)
      \<and> analyzeCaseCloud env text = Inl cloudMessage
    \<longrightarrow> (\<exists>result. analyzeHybrid env text = ([Edge, Cloud], Inr result)
           \<and> har_source result = Edge
           \<and> har_severity result = pe_severity edgeParsed
           \<and> har_fallbackReason result
               = Some (''Cloud failed ('' @ cloudMessage @ ''), using uncertain edge result'')))
   \<and> (runEdgeInference env text = Inl edgeMessage
      \<and> analyzeCaseCloud env text = Inl cloudMessage
    \<longrightarrow> (\<exists>message. analyzeHybrid env text = ([Edge, Cloud], Inl message)
           \<and> str_includes message edgeMessage \<and> str_includes message cloudMessage))
   \<and> (runEdgeInference env text = Inr edgeResult
      \<and> parseEdgeResponse env (ei_response edgeResult) = None
      \<and> analyzeCaseCloud env text = Inl cloudMessage
    \<longrightarrow> (\<exists>message. analyzeHybrid env text = ([Edge, Cloud], Inl message)
           \<and> str_includes message ''Failed to parse edge response''
           \<and> str_includes message cloudMessage))"
proof -
  have inc_edge: "str_includes (''Hybrid analysis failed. Edge: '' @ e @ '', Cloud: '' @ c) e"
    for e c
    using str_includes_mid [of "''Hybrid analysis failed. Edge: ''" e "'', Cloud: '' @ c"]
    by simp
  have inc_cloud: "str_includes (''Hybrid analysis failed. Edge: '' @ e @ '', Cloud: '' @ c) c"
    for e c
    using str_includes_mid [of "''Hybrid analysis failed. Edge: '' @ e @ '', Cloud: ''" c "[]"]
    by simp
  have a: "runEdgeInference env text = Inr edgeResult
      \<and> parseEdgeResponse env (ei_response edgeResult) = Some edgeParsed
      \<and> \<not> isEdgeConfident (pe_severity edgeParsed)
              (calculateConfidenceScore (pe_severity edgeParsed) (pe_symptoms edgeParsed)
                 (pe_summary edgeParsed) (calibratedOrFalse edgeResult))
              (pe_symptoms edgeParsed) (pe_summary edgeParsed)
      \<and> analyzeCaseCloud env text = Inl cloudMessage
    \<longrightarrow> (\<exists>result. analyzeHybrid env text = ([Edge, Cloud], Inr result)
           \<and> har_source result = Edge
           \<and> har_severity result = pe_severity edgeParsed
           \<and> har_fallbackReason result
               = Some (''Cloud failed ('' @ cloudMessage @ ''), using uncertain edge result''))"
    by (simp add: analyzeHybrid_def cloudFallback_def Let_def edgeSourcedResult_def)
  have b: "runEdgeInference env text = Inl edgeMessage
      \<and> analyzeCaseCloud env text = Inl cloudMessage
    \<longrightarrow> (\<exists>message. analyzeHybrid env text = ([Edge, Cloud], Inl message)
           \<and> str_includes message edgeMessage \<and> str_includes message cloudMessage)"
  proof (cases "edgeMessage = []")
    case True
    then show ?thesis
      using inc_cloud [of "''unknown''" cloudMessage]
      by (simp add: analyzeHybrid_def cloudFallback_def Let_def orElse_def str_includes_empty)
  next
    case False
    then show ?thesis
      using inc_cloud [of edgeMessage cloudMessage] inc_edge [of edgeMessage cloudMessage]
      by (simp add: analyzeHybrid_def cloudFallback_def Let_def orElse_def)
  qed
  have c: "runEdgeInference env text = Inr edgeResult
      \<and> parseEdgeResponse env (ei_response edgeResult) = None
      \<and> analyzeCaseCloud env text = Inl cloudMessage
    \<longrightarrow> (\<exists>message. analyzeHybrid env text = ([Edge, Cloud], Inl message)
           \<and> str_includes message ''Failed to parse edge response''
           \<and> str_includes message cloudMessage)"
    using inc_cloud [of "''Failed to parse edge response''" cloudMessage]
          inc_edge [of "''Failed to parse edge response''" cloudMessage]
    by (simp add: analyzeHybrid_def cloudFallback_def Let_def orElse_def)
  from a b c show ?thesis by blast
qed

theorem analyzeHybrid_cloud_failure_witness:
  "(\<exists>result.
      analyzeHybrid
        (scenarioEnv (Inr scenarioEdge) (Some (scenarioParsed Medium [''fever''])) (Inl ''offline''))
        ''fever'' = ([Edge, Cloud], Inr result)
      \<and> har_source result = Edge
      \<and> har_fallbackReason result = Some ''Cloud failed (offline), using uncertain edge result'')
   \<and> (\<exists>message.
        analyzeHybrid (scenarioEnv (Inl ''timed out'') None (Inl ''offline'')) ''fever''
          = ([Edge, Cloud], Inl message)
        \<and> str_includes message ''timed out'' \<and> str_includes message ''offline'')
   \<and> (\<exists>message.
        analyzeHybrid (scenarioEnv (Inr scenarioEdge) None (Inl ''offline'')) ''fever''
          = ([Edge, Cloud], Inl message)
        \<and> str_includes message ''Failed to parse edge response''
        \<and> str_includes message ''offline'')"
proof -
  let ?p = "scenarioParsed Medium [''fever'']"
  let ?e1 = "scenarioEnv (Inr scenarioEdge) (Some ?p) (Inl ''offline'')"
  let ?e2 = "scenarioEnv (Inl ''timed out'') None (Inl ''offline'')"
  let ?e3 = "scenarioEnv (Inr scenarioEdge) None (Inl ''offline'')"
  have g: "\<not> isEdgeConfident (pe_severity ?p)
             (calculateConfidenceScore (pe_severity ?p) (pe_symptoms ?p) (pe_summary ?p)
                (calibratedOrFalse scenarioEdge))
             (pe_symptoms ?p) (pe_summary ?p)"
    by (simp add: isEdgeConfident_def scenarioParsed_def)
  have h1: "runEdgeInference ?e1 ''fever'' = Inr scenarioEdge
            \<and> parseEdgeResponse ?e1 (ei_response scenarioEdge) = Some ?p
            \<and> analyzeCaseCloud ?e1 ''fever'' = Inl ''offline''"
    by (simp add: scenarioEnv_def)
  have h2: "runEdgeInference ?e2 ''fever'' = Inl ''timed out''
            \<and> analyzeCaseCloud ?e2 ''fever'' = Inl ''offline''"
    by (simp add: scenarioEnv_def)
  have h3: "runEdgeInference ?e3 ''fever'' = Inr scenarioEdge
            \<and> parseEdgeResponse ?e3 (ei_response scenarioEdge) = None
            \<and> analyzeCaseCloud ?e3 ''fever'' = Inl ''offline''"
    by (simp add: scenarioEnv_def)
  from analyzeHybrid_cloud_failure
         [of ?e1 "''fever''" scenarioEdge ?p "''offline''" "''timed out''"] g h1
  have r1: "\<exists>result. analyzeHybrid ?e1 ''fever'' = ([Edge, Cloud], Inr result)
      \<and> har_source result = Edge
      \<and> har_fallbackReason result
          = Some (''Cloud failed ('' @ ''offline'' @ ''), using uncertain edge result'')"
    by blast
  from analyzeHybrid_cloud_failure
         [of ?e2 "''fever''" scenarioEdge ?p "''offline''" "''timed out''"] h2
  have r2: "\<exists>message. analyzeHybrid ?e2 ''fever'' = ([Edge, Cloud], Inl message)
        \<and> str_includes message ''timed out'' \<and> str_includes message ''offline''"
    by blast
  from analyzeHybrid_cloud_failure
         [of ?e3 "''fever''" scenarioEdge ?p "''offline''" "''timed out''"] h3
  have r3: "\<exists>message. analyzeHybrid ?e3 ''fever'' = ([Edge, Cloud], Inl message)
        \<and> str_includes message ''Failed to parse edge response''
        \<and> str_includes message ''offline''"
    by blast
  from r1 r2 r3 show ?thesis by simp
qed

text \<open>
  Claim C10. Every result built by \<open>parseCloudResponse\<close> has source cloud, confidence
  exactly 0.75 and \<open>wasCalibrated\<close> false, whatever the cloud response holds; and every
  result of \<open>analyzeHybrid\<close> whose source is cloud is such a result with only a fallback
  reason added, so neither the calibrator nor the decision confidence touches it.
\<close>

theorem cloud_result_fixed_confidence:
  "har_source (parseCloudResponse env cloudResult fullLatency) = Cloud
   \<and> har_confidence (parseCloudResponse env cloudResult fullLatency) = 0.75
   \<and> \<not> har_wasCalibrated (parseCloudResponse env cloudResult fullLatency)
   \<and> (analyzeHybrid env text = (calls, Inr result) \<and> har_source result = Cloud
      \<longrightarrow> har_confidence result = 0.75 \<and> \<not> har_wasCalibrated result
          \<and> (\<exists>cloudResult fullLatency reason.
                analyzeCaseCloud env text = Inr cloudResult
                \<and> result = (parseCloudResponse env cloudResult fullLatency)
                             \<lparr> har_fallbackReason := Some reason \<rparr>))"
proof -
  have p: "har_source (parseCloudResponse env cr l) = Cloud
   \<and> har_confidence (parseCloudResponse env cr l) = 0.75
   \<and> \<not> har_wasCalibrated (parseCloudResponse env cr l)" for cr l
    by (simp add: parseCloudResponse_def Let_def)
  have cf: "cloudFallback env text st er ep ee = (calls, Inr result)
      \<Longrightarrow> har_source result = Cloud
      \<Longrightarrow> (\<exists>cloudResult fullLatency reason.
                analyzeCaseCloud env text = Inr cloudResult
                \<and> result = (parseCloudResponse env cloudResult fullLatency)
                             \<lparr> har_fallbackReason := Some reason \<rparr>)" for st er ep ee
    by (auto simp: cloudFallback_def Let_def edgeSourcedResult_def
             split: sum.splits option.splits)
  have ah: "analyzeHybrid env text = (calls, Inr result) \<Longrightarrow> har_source result = Cloud
      \<Longrightarrow> (\<exists>cloudResult fullLatency reason.
                analyzeCaseCloud env text = Inr cloudResult
                \<and> result = (parseCloudResponse env cloudResult fullLatency)
                             \<lparr> har_fallbackReason := Some reason \<rparr>)"
    using cf
    by (auto simp: analyzeHybrid_def Let_def edgeSourcedResult_def
             split: sum.splits option.splits if_splits)
  show ?thesis using p ah by fastforce
qed

theorem cloud_result_fixed_confidence_witness:
  "\<exists>calls result.
     analyzeHybrid (scenarioEnv (Inl ''timed out'') None (Inr scenarioCloud)) ''fever''
       = (calls, Inr result)
     \<and> har_source result = Cloud
     \<and> har_confidence result = 0.75 \<and> \<not> har_wasCalibrated result
     \<and> har_fallbackReason result = Some ''Edge failed: timed out''"
proof -
  let ?env = "scenarioEnv (Inl ''timed out'') None (Inr scenarioCloud)"
  let ?r = "(parseCloudResponse ?env scenarioCloud (Date_now ?env 2 - Date_now ?env 0))
              \<lparr> har_fallbackReason := Some ''Edge failed: timed out'' \<rparr>"
  have run: "analyzeHybrid ?env ''fever'' = ([Edge, Cloud], Inr ?r)"
    by (simp add: analyzeHybrid_def cloudFallback_def Let_def scenarioEnv_def)
  have src: "har_source ?r = Cloud"
    by (simp add: parseCloudResponse_def Let_def)
  from cloud_result_fixed_confidence
         [of ?env scenarioCloud 0 "''fever''" "[Edge, Cloud]" ?r] run src
  have "har_confidence ?r = 0.75 \<and> \<not> har_wasCalibrated ?r" by blast
  with run src show ?thesis by simp
qed

section \<open>Properties of the temperature-scaled confidence\<close>

lemma sigmoid_bounds: "0 < sigmoid x \<and> sigmoid x < 1"
proof -
  have "0 < exp (- x)" by simp
  then show ?thesis by (simp add: sigmoid_def add_pos_pos)
qed

lemma sigmoid_mono: "a \<le> b \<Longrightarrow> sigmoid a \<le> sigmoid b"
proof -
  assume "a \<le> b"
  then have "exp (- b) \<le> exp (- a)" by simp
  moreover have "0 < 1 + exp (- b)" by (simp add: add_pos_pos)
  ultimately show ?thesis
    unfolding sigmoid_def by (intro divide_left_mono) (simp_all add: add_pos_pos)
qed

lemma sigmoid_strict_mono: "a < b \<Longrightarrow> sigmoid a < sigmoid b"
proof -
  assume "a < b"
  then have "exp (- b) < exp (- a)" by simp
  moreover have "0 < 1 + exp (- b)" by (simp add: add_pos_pos)
  ultimately show ?thesis
    unfolding sigmoid_def by (intro divide_strict_left_mono) (simp_all add: add_pos_pos)
qed

lemma temperature_ge_one:
  "1 \<le> (case map_of SEVERITY_TEMPERATURE severity of
           Some t \<Rightarrow> if t \<noteq> 0 then t else DEFAULT_TEMPERATURE
         | None \<Rightarrow> DEFAULT_TEMPERATURE)"
  by (cases severity) (simp_all add: SEVERITY_TEMPERATURE_def DEFAULT_TEMPERATURE_def)

lemma foldl_add_sum: "foldl (\<lambda>a s. a + f s) (a0 :: real) xs = a0 + sum_list (map f xs)"
  by (induction xs arbitrary: a0) simp_all

lemma sum_list_unit_bounds:
  "(\<And>x. x \<in> set xs \<Longrightarrow> 0 \<le> f x \<and> f x \<le> (1 :: real))
     \<Longrightarrow> 0 \<le> sum_list (map f xs) \<and> sum_list (map f xs) \<le> real (length xs)"
  by (induction xs) fastforce+

lemma ensemble_deviation_le_one:
  assumes "\<And>s. s \<in> set scores \<Longrightarrow> 0 \<le> s \<and> s \<le> (1 :: real)" and "scores \<noteq> []"
  shows "sqrt (foldl (\<lambda>sum s. sum + (s - foldl (\<lambda>a b. a + b) 0 scores / real (length scores)) ^ 2)
                 0 scores / real (length scores)) \<le> 1"
proof -
  let ?n = "real (length scores)"
  let ?mean = "foldl (\<lambda>a b. a + b) 0 scores / ?n"
  have n: "0 < ?n" using assms(2) by simp
  have s: "foldl (\<lambda>a b. a + b) 0 scores = sum_list scores"
    using foldl_add_sum [of "\<lambda>s. s" 0 scores] by simp
  have "0 \<le> sum_list scores \<and> sum_list scores \<le> ?n"
    using sum_list_unit_bounds [of scores "\<lambda>s. s"] assms(1) by simp
  then have m: "0 \<le> ?mean \<and> ?mean \<le> 1"
    using n by (simp add: s)
  have d: "0 \<le> (x - ?mean) ^ 2 \<and> (x - ?mean) ^ 2 \<le> 1" if "x \<in> set scores" for x
  proof -
    have "\<bar>x - ?mean\<bar> \<le> 1" using assms(1) [OF that] m by (simp add: abs_le_iff)
    then have "(x - ?mean) ^ 2 \<le> 1" by (simp add: abs_square_le_1)
    then show ?thesis by simp
  qed
  have "sum_list (map (\<lambda>s. (s - ?mean) ^ 2) scores) \<le> ?n"
    using sum_list_unit_bounds [of scores "\<lambda>s. (s - ?mean) ^ 2"] d by blast
  then have "foldl (\<lambda>sum s. sum + (s - ?mean) ^ 2) 0 scores / ?n \<le> 1"
    using n by (simp add: foldl_add_sum)
  then show ?thesis by simp
qed

lemma sum_squares_nonneg: "0 \<le> foldl (\<lambda>sum s. sum + (s - m) ^ 2) (0 :: real) scores"
proof -
  have "0 \<le> sum_list (map (\<lambda>s. (s - m) ^ 2) scores)"
    by (rule sum_list_nonneg) auto
  then show ?thesis by (simp add: foldl_add_sum)
qed

lemma ensembleUncertainty_nonneg: "0 \<le> ensembleUncertainty ensembleScores"
  by (simp add: ensembleUncertainty_def Let_def sum_squares_nonneg split: option.splits)

lemma ensembleUncertainty_le_one:
  assumes "case ensembleScores of None \<Rightarrow> True
           | Some scores \<Rightarrow> list_all (\<lambda>s. 0 \<le> s \<and> s \<le> 1) scores"
  shows "ensembleUncertainty ensembleScores \<le> 1"
proof (cases ensembleScores)
  case None
  then show ?thesis by (simp add: ensembleUncertainty_def)
next
  case (Some scores)
  show ?thesis
  proof (cases "length scores > 1")
    case False
    then show ?thesis using Some by (simp add: ensembleUncertainty_def)
  next
    case True
    then have ne: "scores \<noteq> []" by auto
    have r: "\<And>s. s \<in> set scores \<Longrightarrow> 0 \<le> s \<and> s \<le> 1"
      using assms Some by (simp add: list_all_iff)
    from ensemble_deviation_le_one [OF r ne] True Some show ?thesis
      by (simp add: ensembleUncertainty_def Let_def)
  qed
qed

lemma uncertainty_nonneg:
  "0 \<le> cs_uncertainty (calculateConfidence rawLogit severity ensembleScores)"
  using ensembleUncertainty_nonneg [of ensembleScores]
  by (simp add: calculateConfidence_def Let_def)

lemma uncertainty_le_one:
  assumes "case ensembleScores of None \<Rightarrow> True
           | Some scores \<Rightarrow> list_all (\<lambda>s. 0 \<le> s \<and> s \<le> 1) scores"
  shows "cs_uncertainty (calculateConfidence rawLogit severity ensembleScores) \<le> 1"
  using ensembleUncertainty_le_one [OF assms]
  by (simp add: calculateConfidence_def Let_def min_le_iff_disj)

text \<open>
  Claim C4, as the code has it. The raw and the calibrated value always lie in [0, 1]
  and the uncertainty is never negative. The calibrated value is at most the raw one
  when the raw logit is not negative (below zero the scaling raises it instead). The
  uncertainty is at most 1 when no ensemble scores are given or all of them lie in
  [0, 1].
\<close>

theorem calculateConfidence_bounds:
  "0 \<le> cs_raw (calculateConfidence rawLogit severity ensembleScores)
   \<and> cs_raw (calculateConfidence rawLogit severity ensembleScores) \<le> 1
   \<and> 0 \<le> cs_calibrated (calculateConfidence rawLogit severity ensembleScores)
   \<and> cs_calibrated (calculateConfidence rawLogit severity ensembleScores) \<le> 1
   \<and> 0 \<le> cs_uncertainty (calculateConfidence rawLogit severity ensembleScores)
   \<and> (0 \<le> rawLogit \<longrightarrow>
        cs_calibrated (calculateConfidence rawLogit severity ensembleScores)
          \<le> cs_raw (calculateConfidence rawLogit severity ensembleScores))
   \<and> ((case ensembleScores of None \<Rightarrow> True
        | Some scores \<Rightarrow> list_all (\<lambda>s. 0 \<le> s \<and> s \<le> 1) scores) \<longrightarrow>
        cs_uncertainty (calculateConfidence rawLogit severity ensembleScores) \<le> 1)"
proof -
  let ?temp = "case map_of SEVERITY_TEMPERATURE severity of
                 Some t \<Rightarrow> if t \<noteq> 0 then t else DEFAULT_TEMPERATURE
               | None \<Rightarrow> DEFAULT_TEMPERATURE"
  have raw: "cs_raw (calculateConfidence rawLogit severity ensembleScores) = sigmoid rawLogit"
    by (simp add: calculateConfidence_def Let_def)
  have cal: "cs_calibrated (calculateConfidence rawLogit severity ensembleScores)
               = sigmoid (rawLogit / ?temp)"
    by (simp add: calculateConfidence_def Let_def)
  have le: "rawLogit / ?temp \<le> rawLogit" if "0 \<le> rawLogit"
  proof -
    have "1 \<le> ?temp" by (rule temperature_ge_one)
    with that have "rawLogit / ?temp \<le> rawLogit / 1"
      by (intro divide_left_mono) simp_all
    then show ?thesis by simp
  qed
  have b1: "0 \<le> sigmoid rawLogit \<and> sigmoid rawLogit \<le> 1"
    using sigmoid_bounds [of rawLogit] by simp
  have b2: "0 \<le> sigmoid (rawLogit / ?temp) \<and> sigmoid (rawLogit / ?temp) \<le> 1"
    using sigmoid_bounds [of "rawLogit / ?temp"] by simp
  have m: "0 \<le> rawLogit \<longrightarrow> sigmoid (rawLogit / ?temp) \<le> sigmoid rawLogit"
    using le sigmoid_mono by blast
  show ?thesis
    unfolding raw cal
    using b1 b2 m uncertainty_nonneg [of rawLogit severity ensembleScores]
          uncertainty_le_one [of ensembleScores rawLogit severity]
    by blast
qed

theorem calculateConfidence_bounds_witness:
  "0 \<le> (2 :: real)
   \<and> list_all (\<lambda>s. 0 \<le> s \<and> s \<le> (1 :: real)) [0.8, 0.75, 0.85, 0.78]
   \<and> cs_calibrated (calculateConfidence 2 High (Some [0.8, 0.75, 0.85, 0.78]))
        \<le> cs_raw (calculateConfidence 2 High (Some [0.8, 0.75, 0.85, 0.78]))
   \<and> cs_uncertainty (calculateConfidence 2 High (Some [0.8, 0.75, 0.85, 0.78])) \<le> 1"
proof -
  have h1: "0 \<le> (2 :: real)" by simp
  have h2: "list_all (\<lambda>s. 0 \<le> s \<and> s \<le> (1 :: real)) [0.8, 0.75, 0.85, 0.78]" by simp
  then have h3: "case Some [0.8, 0.75, 0.85, 0.78 :: real] of None \<Rightarrow> True
                 | Some scores \<Rightarrow> list_all (\<lambda>s. 0 \<le> s \<and> s \<le> 1) scores"
    by simp
  from calculateConfidence_bounds [of 2 High "Some [0.8, 0.75, 0.85, 0.78]"] h1 h3
  have "cs_calibrated (calculateConfidence 2 High (Some [0.8, 0.75, 0.85, 0.78]))
          \<le> cs_raw (calculateConfidence 2 High (Some [0.8, 0.75, 0.85, 0.78]))
        \<and> cs_uncertainty (calculateConfidence 2 High (Some [0.8, 0.75, 0.85, 0.78])) \<le> 1"
    by blast
  with h1 h2 show ?thesis by blast
qed

text \<open>
  Claim C4 as stated fails twice. At raw logit \<open>-2\<close> and severity low the calibrated
  value is above the raw one; at raw logit \<open>1.1\<close>, severity high and ensemble scores
  \<open>0\<close> and \<open>10\<close> the uncertainty is 5.
\<close>

theorem calculateConfidence_bounds_counterexample:
  "\<not> cs_calibrated (calculateConfidence (- 2) Low None)
       \<le> cs_raw (calculateConfidence (- 2) Low None)
   \<and> \<not> cs_uncertainty (calculateConfidence 1.1 High (Some [0, 10])) \<le> 1"
proof -
  have "sigmoid (- 2) < sigmoid (- 2 / 1.5)"
    by (rule sigmoid_strict_mono) simp
  then have a: "\<not> cs_calibrated (calculateConfidence (- 2) Low None)
                    \<le> cs_raw (calculateConfidence (- 2) Low None)"
    by (simp add: calculateConfidence_def Let_def SEVERITY_TEMPERATURE_def)
  have e1: "exp (- 1 :: real) \<le> 1 / 2"
  proof -
    have "(2 :: real) \<le> exp 1" using exp_ge_add_one_self [of "1 :: real"] by simp
    then have "1 / exp (1 :: real) \<le> 1 / 2" by (intro divide_left_mono) simp_all
    then show ?thesis by (simp add: exp_minus inverse_eq_divide)
  qed
  have e2: "1 / 3 \<le> exp (- 1 :: real)"
  proof -
    have "1 / 3 \<le> 1 / exp (1 :: real)" using exp_le by (intro divide_left_mono) simp_all
    then show ?thesis by (simp add: exp_minus inverse_eq_divide)
  qed
  have lo: "\<not> sigmoid 1 < 0.6"
  proof -
    have "1 + exp (- 1 :: real) \<le> 3 / 2" using e1 by simp
    then have "1 / (3 / 2) \<le> 1 / (1 + exp (- 1 :: real))"
      by (intro divide_left_mono) (simp_all add: add_pos_pos)
    then show ?thesis by (simp add: sigmoid_def)
  qed
  have hi: "\<not> sigmoid 1 > 0.95"
  proof -
    have "4 / 3 \<le> 1 + exp (- 1 :: real)" using e2 by simp
    then have "1 / (1 + exp (- 1 :: real)) \<le> 1 / (4 / 3)"
      by (intro divide_left_mono) (simp_all add: add_pos_pos)
    then show ?thesis by (simp add: sigmoid_def)
  qed
  have sq: "sqrt 25 = 5" using real_sqrt_abs [of 5] by simp
  have "cs_uncertainty (calculateConfidence 1.1 High (Some [0, 10])) = 5"
    using lo hi sq
    by (simp add: calculateConfidence_def ensembleUncertainty_def Let_def
          SEVERITY_TEMPERATURE_def)
  then have b: "\<not> cs_uncertainty (calculateConfidence 1.1 High (Some [0, 10])) \<le> 1"
    by simp
  from a b show ?thesis by blast
qed

section \<open>Properties of the retrieval index\<close>













































end
